theory Spec2Isabelle
  imports Main "HOL-Library.Word"
begin

unbundle bit_operations_syntax

section \<open>Data model\<close>

text \<open>
  The plugin bridges a real-time audio host and the Rack engine. The model follows
  \<^verbatim>\<open>CardinalPlugin.cpp\<close> and \<^verbatim>\<open>CardinalCommon.cpp\<close>: class members become record
  fields of the same name, fixed-width integers become words, pointers become
  addresses (\<open>0\<close> is the null pointer), and every call into a collaborator whose code
  lives outside these two files (the Rack engine, \<^verbatim>\<open>rack::system\<close>, the C library's
  file functions, the plugin framework) is a parameter.
\<close>

type_synonym byte = "8 word"
type_synonym sample = "32 word" \<comment> \<open>the bit pattern of a \<^verbatim>\<open>float\<close>; all-zero bits are 0.0f\<close>
type_synonym ptr = nat

text \<open>
  \<^verbatim>\<open>MidiEvent\<close> of the plugin framework: a frame offset, a size, four inline data bytes
  and a pointer to external data.
\<close>

record MidiEvent =
  ev_frame :: "32 word"
  ev_size :: "32 word"
  ev_data :: "byte list"
  ev_dataExt :: ptr

text \<open>
  \<^verbatim>\<open>TimePosition\<close>, the host's transport snapshot. The bar-beat-tick values are
  floating-point numbers and stay abstract in \<open>'b\<close>.
\<close>

record 'b TimePosition =
  tp_playing :: bool
  tp_frame :: "64 word"
  tp_bbt_valid :: bool
  tp_bbt :: 'b

text \<open>
  The fields of \<^verbatim>\<open>CardinalPluginContext\<close> that \<^verbatim>\<open>run\<close> and \<^verbatim>\<open>writeMidiMessage\<close>
  touch. \<open>musical\<close> stands for the eleven bar-beat-tick fields (\<^verbatim>\<open>bar\<close> ... \<^verbatim>\<open>tickClock\<close>).
  \<open>midiEvents\<close> is the array the pointer of that name refers to (empty for a null pointer).
\<close>

record 'm Context =
  bypassed :: bool
  playing :: bool
  bbtValid :: bool
  frame :: "64 word"
  reset :: bool
  musical :: 'm
  dataIns :: ptr
  dataOuts :: ptr
  midiEvents :: "MidiEvent list"
  midiEventCount :: "32 word"
  processCounter :: "32 word"

text \<open>The members of \<^verbatim>\<open>CardinalPlugin\<close>; \<open>pcontext\<close> is the object behind \<^verbatim>\<open>context\<close>.\<close>

record 'm Plugin =
  pcontext :: "'m Context"
  fAudioBufferCopy :: ptr
  fAutosavePath :: string
  fNextExpectedFrame :: "64 word"
  fState_comment :: string
  fState_screenshot :: string
  fState_windowSize :: string
  fWasBypassed :: bool
  bypassMidiEvents :: "MidiEvent list"

text \<open>
  Memory as \<^verbatim>\<open>run\<close> sees it: arrays of channel pointers (\<^verbatim>\<open>float**\<close>) and sample
  buffers (\<^verbatim>\<open>float*\<close>), each addressed by its base pointer and indexed from 0.
  Bounds are the host's contract and are not tracked.
\<close>

record Heap =
  parr :: "ptr \<Rightarrow> nat \<Rightarrow> ptr"
  buf :: "ptr \<Rightarrow> nat \<Rightarrow> sample"

text \<open>Compile-time switches of the build.\<close>

record Build =
  NUM_INPUTS :: nat
  NUM_OUTPUTS :: nat
  VARIANT_MAIN :: bool
  HEADLESS :: bool
  HAVE_LIBLO :: bool

section \<open>The per-block run\<close>

text \<open>
  \<^verbatim>\<open>d_isDiffHigherThanLimit\<close>, lines 74-79, at the only type it is used with
  (\<^verbatim>\<open>uint64_t\<close>):
  \<^verbatim>\<open>return v1 != v2 ? (v1 > v2 ? v1 - v2 : v2 - v1) > limit : false;\<close>
  The subtraction is always the larger value minus the smaller, so it does not wrap.
\<close>

definition d_isDiffHigherThanLimit :: "64 word \<Rightarrow> 64 word \<Rightarrow> 64 word \<Rightarrow> bool" where
  "d_isDiffHigherThanLimit v1 v2 limit =
     (if v1 \<noteq> v2 then (if v1 > v2 then v1 - v2 else v2 - v1) > limit else False)"

text \<open>
  Lines 903-935 of \<^verbatim>\<open>run\<close>: the transport block. \<open>bbt_update\<close> stands for the
  floating-point assignments under \<^verbatim>\<open>if (timePos.bbt.valid)\<close>. \<^verbatim>\<open>frames\<close> is a
  \<^verbatim>\<open>uint32_t\<close> and is widened to 64 bits before the unsigned, wrapping addition.
\<close>

definition run_transport ::
  "('b \<Rightarrow> 'm \<Rightarrow> 'm) \<Rightarrow> 'b TimePosition \<Rightarrow> 32 word \<Rightarrow> 'm Plugin \<Rightarrow> 'm Plugin" where
  "run_transport bbt_update timePos frames p =
     (let c = pcontext p;
          reset0 = (tp_playing timePos \<and>
                    (tp_frame timePos = 0 \<or>
                     d_isDiffHigherThanLimit (fNextExpectedFrame p) (tp_frame timePos) 2));
          reset1 = (if playing c = tp_playing timePos \<and> tp_frame timePos = 0 \<and> frame c = 0
                    then False else reset0);
          c1 = c\<lparr>playing := tp_playing timePos,
                 bbtValid := tp_bbt_valid timePos,
                 frame := tp_frame timePos\<rparr>;
          c2 = (if tp_bbt_valid timePos
                then c1\<lparr>musical := bbt_update (tp_bbt timePos) (musical c1)\<rparr>
                else c1);
          c3 = c2\<lparr>reset := reset1\<rparr>
      in p\<lparr>pcontext := c3,
            fNextExpectedFrame :=
              (if tp_playing timePos then tp_frame timePos + ucast frames else 0)\<rparr>)"

text \<open>\<^verbatim>\<open>memcpy\<close> and \<^verbatim>\<open>memset\<close> with zero, on the first \<open>n\<close> samples of a buffer.\<close>

definition memcpy_samples :: "ptr \<Rightarrow> ptr \<Rightarrow> nat \<Rightarrow> Heap \<Rightarrow> Heap" where
  "memcpy_samples dst src n h =
     h\<lparr>buf := (buf h)(dst := (\<lambda>k. if k < n then buf h src k else buf h dst k))\<rparr>"

definition memset_zero :: "ptr \<Rightarrow> nat \<Rightarrow> Heap \<Rightarrow> Heap" where
  "memset_zero dst n h =
     h\<lparr>buf := (buf h)(dst := (\<lambda>k. if k < n then 0 else buf h dst k))\<rparr>"

text \<open>
  The copy loop of lines 947-954: channel \<open>i\<close> of the host's input is copied into
  channel \<open>i\<close> of the scratch array; on the main variant a null input is skipped.
\<close>

definition copy_channel :: "Build \<Rightarrow> ptr \<Rightarrow> ptr \<Rightarrow> nat \<Rightarrow> nat \<Rightarrow> Heap \<Rightarrow> Heap" where
  "copy_channel cfg inputs scratch n i h =
     (if VARIANT_MAIN cfg \<and> parr h inputs i = 0 then h
      else memcpy_samples (parr h scratch i) (parr h inputs i) n h)"

definition copy_inputs :: "Build \<Rightarrow> ptr \<Rightarrow> ptr \<Rightarrow> nat \<Rightarrow> Heap \<Rightarrow> Heap" where
  "copy_inputs cfg inputs scratch n h =
     fold (copy_channel cfg inputs scratch n) [0..<NUM_INPUTS cfg] h"

text \<open>The test of line 938: the host's buffers are taken to be separate.\<close>

definition separate_buffers :: "Heap \<Rightarrow> ptr \<Rightarrow> ptr \<Rightarrow> bool" where
  "separate_buffers h inputs outputs =
     (inputs \<noteq> outputs \<and> (inputs = 0 \<or> parr h inputs 0 \<noteq> parr h outputs 0))"

text \<open>Lines 937-960: choose the engine's buffer views.\<close>

definition run_buffers ::
  "Build \<Rightarrow> ptr \<Rightarrow> ptr \<Rightarrow> 32 word \<Rightarrow> 'm Plugin \<times> Heap \<Rightarrow> 'm Plugin \<times> Heap" where
  "run_buffers cfg inputs outputs frames ph =
     (let p = fst ph; h = snd ph in
      if separate_buffers h inputs outputs
      then (p\<lparr>pcontext := (pcontext p)\<lparr>dataIns := inputs, dataOuts := outputs\<rparr>\<rparr>, h)
      else if NUM_INPUTS cfg \<noteq> 0
      then (p\<lparr>pcontext := (pcontext p)\<lparr>dataIns := fAudioBufferCopy p, dataOuts := outputs\<rparr>\<rparr>,
            copy_inputs cfg inputs (fAudioBufferCopy p) (unat frames) h)
      else (p\<lparr>pcontext := (pcontext p)\<lparr>dataIns := 0, dataOuts := outputs\<rparr>\<rparr>, h))"

text \<open>Lines 962-969: every output channel is zeroed (a null output is skipped on the main variant).\<close>

definition clear_channel :: "Build \<Rightarrow> ptr \<Rightarrow> nat \<Rightarrow> nat \<Rightarrow> Heap \<Rightarrow> Heap" where
  "clear_channel cfg outputs n i h =
     (if VARIANT_MAIN cfg \<and> parr h outputs i = 0 then h
      else memset_zero (parr h outputs i) n h)"

definition clear_outputs :: "Build \<Rightarrow> ptr \<Rightarrow> nat \<Rightarrow> Heap \<Rightarrow> Heap" where
  "clear_outputs cfg outputs n h =
     fold (clear_channel cfg outputs n) [0..<NUM_OUTPUTS cfg] h"

text \<open>
  Lines 971-988: the MIDI events handed to the engine. \<open>was\<close> is \<^verbatim>\<open>fWasBypassed\<close>,
  \<open>byp\<close> the value of \<^verbatim>\<open>context->bypassed\<close> read at the start of the block.
\<close>

definition run_midi ::
  "bool \<Rightarrow> MidiEvent list \<Rightarrow> 32 word \<Rightarrow> 'm Plugin \<Rightarrow> 'm Plugin" where
  "run_midi byp hostEvents hostEventCount p =
     (if byp
      then (if fWasBypassed p \<noteq> byp
            then p\<lparr>pcontext := (pcontext p)\<lparr>midiEvents := bypassMidiEvents p, midiEventCount := 16\<rparr>\<rparr>
            else p\<lparr>pcontext := (pcontext p)\<lparr>midiEvents := [], midiEventCount := 0\<rparr>\<rparr>)
      else p\<lparr>pcontext := (pcontext p)\<lparr>midiEvents := hostEvents, midiEventCount := hostEventCount\<rparr>\<rparr>)"

text \<open>
  Everything \<^verbatim>\<open>run\<close> does before it calls the engine: the plugin state and the memory
  that \<^verbatim>\<open>stepBlock\<close> finds.
\<close>

definition run_prepare ::
  "Build \<Rightarrow> ('b \<Rightarrow> 'm \<Rightarrow> 'm) \<Rightarrow> 'b TimePosition \<Rightarrow> ptr \<Rightarrow> ptr \<Rightarrow> 32 word \<Rightarrow>
   MidiEvent list \<Rightarrow> 32 word \<Rightarrow> 'm Plugin \<times> Heap \<Rightarrow> 'm Plugin \<times> Heap" where
  "run_prepare cfg bbt_update timePos inputs outputs frames hostEvents hostEventCount ph =
     (let byp = bypassed (pcontext (fst ph));
          p1 = run_transport bbt_update timePos frames (fst ph);
          ph2 = run_buffers cfg inputs outputs frames (p1, snd ph);
          h3 = clear_outputs cfg outputs (unat frames) (snd ph2);
          p4 = run_midi byp hostEvents hostEventCount (fst ph2);
          p5 = p4\<lparr>pcontext := (pcontext p4)\<lparr>processCounter := processCounter (pcontext p4) + 1\<rparr>\<rparr>
      in (p5, h3))"

text \<open>
  \<^verbatim>\<open>run\<close>. The engine's \<^verbatim>\<open>stepBlock\<close> reads the context, writes memory through the
  buffer views and changes its own state \<open>'e\<close>; afterwards the bypass flag of this block
  is remembered.
\<close>

definition run ::
  "Build \<Rightarrow> ('b \<Rightarrow> 'm \<Rightarrow> 'm) \<Rightarrow> (32 word \<Rightarrow> 'm Context \<Rightarrow> Heap \<times> 'e \<Rightarrow> Heap \<times> 'e) \<Rightarrow>
   'b TimePosition \<Rightarrow> ptr \<Rightarrow> ptr \<Rightarrow> 32 word \<Rightarrow> MidiEvent list \<Rightarrow> 32 word \<Rightarrow>
   'm Plugin \<times> Heap \<times> 'e \<Rightarrow> 'm Plugin \<times> Heap \<times> 'e" where
  "run cfg bbt_update stepBlock timePos inputs outputs frames hostEvents hostEventCount s =
     (let p = fst s; h = fst (snd s); e = snd (snd s);
          byp = bypassed (pcontext p);
          ph = run_prepare cfg bbt_update timePos inputs outputs frames hostEvents hostEventCount (p, h);
          he = stepBlock frames (pcontext (fst ph)) (snd ph, e)
      in ((fst ph)\<lparr>fWasBypassed := byp\<rparr>, he))"

section \<open>Construction\<close>

text \<open>
  Calls into collaborators. A call that may throw returns \<open>Raise\<close> or \<open>Ok\<close> with its
  value; a call that changes the outside world returns the new world \<open>'w\<close> (the file
  system and the engine's patch state).
\<close>

datatype 'a ext = Raise | Ok 'a

text \<open>
  How one of the plugin's own operations ends: it returns, an exception leaves it
  uncaught, or it has run into behaviour the language leaves undefined.
\<close>

datatype 'a exit = Return 'a | Propagate | Undefined

text \<open>
  The collaborators of the persistence code: \<^verbatim>\<open>rack::system\<close> (temporary directory,
  \<^verbatim>\<open>join\<close>, \<^verbatim>\<open>exists\<close>, \<^verbatim>\<open>createDirectories\<close>, \<^verbatim>\<open>removeRecursively\<close>, the archiver),
  the C library's file functions (a \<^verbatim>\<open>FILE*\<close> is named by the path it was opened on;
  \<open>fopen\<close> answers whether the pointer is non-null), the engine and patch manager,
  the framework's Base64 codec, and the settings and remote hooks of the other state keys.
\<close>

record 'w System =
  getTempDirectory :: "'w \<Rightarrow> string ext"
  join :: "string \<Rightarrow> string \<Rightarrow> string"
  exists_path :: "string \<Rightarrow> 'w \<Rightarrow> bool ext"
  createDirectories :: "string \<Rightarrow> 'w \<Rightarrow> bool ext \<times> 'w"
  removeRecursively :: "string \<Rightarrow> 'w \<Rightarrow> unit ext \<times> 'w"
  archiveDirectory :: "string \<Rightarrow> int \<Rightarrow> 'w \<Rightarrow> byte list ext \<times> 'w"
  unarchiveToDirectory :: "byte list \<Rightarrow> string \<Rightarrow> 'w \<Rightarrow> unit ext \<times> 'w"
  fopen :: "string \<Rightarrow> string \<Rightarrow> 'w \<Rightarrow> bool \<times> 'w"
  fwrite :: "string \<Rightarrow> byte list \<Rightarrow> 'w \<Rightarrow> 'w"
  fclose :: "string \<Rightarrow> 'w \<Rightarrow> 'w"
  prepareSave :: "'w \<Rightarrow> unit ext \<times> 'w"
  saveAutosave :: "'w \<Rightarrow> unit ext \<times> 'w"
  cleanAutosave :: "'w \<Rightarrow> unit ext \<times> 'w"
  loadAutosave :: "'w \<Rightarrow> unit ext \<times> 'w"
  asBase64 :: "byte list \<Rightarrow> string"
  d_getChunkFromBase64String :: "string \<Rightarrow> byte list"
  dumpModuleInfos :: "'w \<Rightarrow> string"
  loadModuleInfos :: "string \<Rightarrow> 'w \<Rightarrow> 'w"
  sendScreenshotToRemote :: "string \<Rightarrow> 'w \<Rightarrow> 'w"

text \<open>\<^verbatim>\<open>snprintf(uidBuf, sizeof(uidBuf), "Cardinal.%04d", i)\<close> for the positive \<open>i\<close> of the loop.\<close>

definition digit_char :: "nat \<Rightarrow> char" where
  "digit_char d = char_of (48 + d)"

fun decimal :: "nat \<Rightarrow> string" where
  "decimal n = (if n < 10 then [digit_char n] else decimal (n div 10) @ [digit_char (n mod 10)])"

definition uidBuf :: "int \<Rightarrow> string" where
  "uidBuf i =
     (let ds = decimal (nat i)
      in ''Cardinal.'' @ replicate (4 - length ds) (CHR ''0'') @ ds)"

definition INT_MAX :: int where
  "INT_MAX = 2147483647"

text \<open>
  The loop \<^verbatim>\<open>for (int i=1;; ++i)\<close> of lines 216-227, inside the \<^verbatim>\<open>try\<close> block: the result
  is the value left in \<^verbatim>\<open>fAutosavePath\<close> (empty when nothing was assigned or an
  exception was caught) and the world. \<open>create_or_empty\<close> is the body of
  \<^verbatim>\<open>if (! exists(trypath))\<close>. Incrementing \<open>i\<close> past \<open>INT_MAX\<close> is undefined: \<open>None\<close>.
\<close>

definition create_or_empty :: "'w System \<Rightarrow> string \<Rightarrow> 'w \<Rightarrow> string \<times> 'w" where
  "create_or_empty sys trypath w =
     (case createDirectories sys trypath w of
        (Ok True, w') \<Rightarrow> (trypath, w')
      | (Ok False, w') \<Rightarrow> ([], w')
      | (Raise, w') \<Rightarrow> ([], w'))"

function find_unused :: "'w System \<Rightarrow> string \<Rightarrow> 'w \<Rightarrow> int \<Rightarrow> (string \<times> 'w) option" where
  "find_unused sys tmp w i =
     (let trypath = join sys tmp (uidBuf i) in
      case exists_path sys trypath w of
        Raise \<Rightarrow> Some ([], w)
      | Ok False \<Rightarrow> Some (create_or_empty sys trypath w)
      | Ok True \<Rightarrow> (if i < INT_MAX then find_unused sys tmp w (i + 1) else None))"
  by pat_completeness auto
termination
  by (relation "measure (\<lambda>(sys, tmp, w, i). nat (INT_MAX - i))") auto

text \<open>Lines 211-228: create the unique temporary path of this instance.\<close>

definition create_unique_path :: "'w System \<Rightarrow> 'w \<Rightarrow> (string \<times> 'w) option" where
  "create_unique_path sys w =
     (case getTempDirectory sys w of
        Raise \<Rightarrow> Some ([], w)
      | Ok tmp \<Rightarrow> find_unused sys tmp w 1)"

text \<open>
  Lines 230-238: \<^verbatim>\<open>memset\<close> clears the sixteen events, then the loop sets size and the
  first two data bytes of each.
\<close>

definition zero_MidiEvent :: MidiEvent where
  "zero_MidiEvent = \<lparr>ev_frame = 0, ev_size = 0, ev_data = [0, 0, 0, 0], ev_dataExt = 0\<rparr>"

definition init_bypass_event :: "nat \<Rightarrow> MidiEvent list \<Rightarrow> MidiEvent list" where
  "init_bypass_event i evs =
     evs[i := (evs ! i)\<lparr>ev_size := 3,
                        ev_data := (ev_data (evs ! i))[0 := 0xB0 + of_nat i, 1 := 0x7B]\<rparr>]"

definition init_bypassMidiEvents :: "MidiEvent list" where
  "init_bypassMidiEvents = fold init_bypass_event [0..<16] (replicate 16 zero_MidiEvent)"

text \<open>
  The constructor, as far as the members above go: the member initialisers, the
  temporary path and the bypass events. The context comes from the base class.
\<close>

definition CardinalPlugin :: "'w System \<Rightarrow> 'm Context \<Rightarrow> 'w \<Rightarrow> ('m Plugin \<times> 'w) option" where
  "CardinalPlugin sys c w =
     (case create_unique_path sys w of
        None \<Rightarrow> None
      | Some (path, w') \<Rightarrow>
          Some (\<lparr>pcontext = c, fAudioBufferCopy = 0, fAutosavePath = path,
                 fNextExpectedFrame = 0, fState_comment = [], fState_screenshot = [],
                 fState_windowSize = [], fWasBypassed = False,
                 bypassMidiEvents = init_bypassMidiEvents\<rparr>, w'))"

section \<open>Patch state\<close>

text \<open>\<^verbatim>\<open>getState\<close>, lines 692-767. The method is \<^verbatim>\<open>const\<close>: the plugin's members stay as they are.\<close>

definition getState :: "Build \<Rightarrow> 'w System \<Rightarrow> string \<Rightarrow> 'm Plugin \<Rightarrow> 'w \<Rightarrow> string exit \<times> 'w" where
  "getState cfg sys key p w =
     (if \<not> HEADLESS cfg \<and> key = ''moduleInfos'' then (Return (dumpModuleInfos sys w), w)
      else if \<not> HEADLESS cfg \<and> key = ''windowSize'' then (Return (fState_windowSize p), w)
      else if key = ''comment'' then (Return (fState_comment p), w)
      else if key = ''screenshot'' then (Return (fState_screenshot p), w)
      else if key \<noteq> ''patch'' then (Return [], w)
      else if fAutosavePath p = [] then (Return [], w)
      else
        (case prepareSave sys w of
           (Raise, w1) \<Rightarrow> (Propagate, w1)
         | (Ok _, w1) \<Rightarrow>
        (case saveAutosave sys w1 of
           (Raise, w2) \<Rightarrow> (Propagate, w2)
         | (Ok _, w2) \<Rightarrow>
        (case cleanAutosave sys w2 of
           (Raise, w3) \<Rightarrow> (Propagate, w3)
         | (Ok _, w3) \<Rightarrow>
        (case archiveDirectory sys (fAutosavePath p) 1 w3 of
           (Raise, w4) \<Rightarrow> (Return [], w4)
         | (Ok data, w4) \<Rightarrow> (Return (asBase64 sys data), w4))))))"

text \<open>
  \<^verbatim>\<open>static constexpr const char zstdMagic[] = "\x28\xb5\x2f\xfd"\<close>: the array holds the
  four bytes of the literal and its terminating zero, so \<^verbatim>\<open>sizeof(zstdMagic)\<close> is its
  length, 5.
\<close>

definition zstdMagic :: "byte list" where
  "zstdMagic = [0x28, 0xB5, 0x2F, 0xFD, 0x00]"

text \<open>
  \<^verbatim>\<open>memcmp\<close> compares byte by byte and answers at the first difference; \<open>None\<close> when it
  would have to read past the end of one of the arrays.
\<close>

fun memcmp :: "byte list \<Rightarrow> byte list \<Rightarrow> nat \<Rightarrow> int option" where
  "memcmp xs ys 0 = Some 0"
| "memcmp (x # xs) (y # ys) (Suc n) =
     (if x = y then memcmp xs ys n else Some (int (unat x) - int (unat y)))"
| "memcmp xs ys (Suc n) = None"

text \<open>
  Lines 833-864 of \<^verbatim>\<open>setState\<close>, for the decoded blob \<open>data\<close>: clear the staging
  directory, store the blob in it (verbatim as \<^verbatim>\<open>patch.json\<close>, or unarchived), and ask
  the patch manager to load it. The values of \<^verbatim>\<open>removeRecursively\<close> and
  \<^verbatim>\<open>createDirectories\<close> are dropped; their exceptions are not caught here.
\<close>

definition setState_patch :: "'w System \<Rightarrow> byte list \<Rightarrow> 'm Plugin \<times> 'w \<Rightarrow> unit exit \<times> 'm Plugin \<times> 'w" where
  "setState_patch sys data s =
     (let p = fst s; w = snd s in
      if \<not> length data \<ge> 4 then (Return (), p, w)
      else
        (case removeRecursively sys (fAutosavePath p) w of
           (Raise, w1) \<Rightarrow> (Propagate, p, w1)
         | (Ok _, w1) \<Rightarrow>
        (case createDirectories sys (fAutosavePath p) w1 of
           (Raise, w2) \<Rightarrow> (Propagate, p, w2)
         | (Ok _, w2) \<Rightarrow>
        (case memcmp data zstdMagic (length zstdMagic) of
           None \<Rightarrow> (Undefined, p, w2)
         | Some d \<Rightarrow>
             if d \<noteq> 0
             then
               (let f = join sys (fAutosavePath p) ''patch.json'' in
                case fopen sys f ''w'' w2 of
                  (False, w3) \<Rightarrow> (Return (), p, w3)
                | (True, w3) \<Rightarrow>
                    (Return (), p, snd (loadAutosave sys (fclose sys f (fwrite sys f data w3)))))
             else
               (case unarchiveToDirectory sys data (fAutosavePath p) w2 of
                  (Raise, w3) \<Rightarrow> (Return (), p, w3)
                | (Ok _, w3) \<Rightarrow> (Return (), p, snd (loadAutosave sys w3)))))))"

text \<open>\<^verbatim>\<open>setState\<close>, lines 769-864.\<close>

definition setState :: "Build \<Rightarrow> 'w System \<Rightarrow> string \<Rightarrow> string \<Rightarrow> 'm Plugin \<times> 'w \<Rightarrow> unit exit \<times> 'm Plugin \<times> 'w" where
  "setState cfg sys key val s =
     (let p = fst s; w = snd s in
      if \<not> HEADLESS cfg \<and> key = ''moduleInfos'' then (Return (), p, loadModuleInfos sys val w)
      else if \<not> HEADLESS cfg \<and> key = ''windowSize'' then (Return (), p\<lparr>fState_windowSize := val\<rparr>, w)
      else if key = ''comment'' then (Return (), p\<lparr>fState_comment := val\<rparr>, w)
      else if key = ''screenshot''
      then (Return (), p\<lparr>fState_screenshot := val\<rparr>,
            if HAVE_LIBLO cfg \<and> \<not> HEADLESS cfg then sendScreenshotToRemote sys val w else w)
      else if key \<noteq> ''patch'' then (Return (), p, w)
      else if fAutosavePath p = [] then (Return (), p, w)
      else setState_patch sys (d_getChunkFromBase64String sys val) (p, w))"

section \<open>MIDI output\<close>

text \<open>\<^verbatim>\<open>rack::midi::Message\<close>: the bytes and a signed 64-bit frame.\<close>

record Message =
  msg_bytes :: "byte list"
  msg_frame :: "64 word"

text \<open>
  The two nested \<^verbatim>\<open>switch\<close> statements of \<^verbatim>\<open>writeMidiMessage\<close> on the status byte:
  the event size, or \<open>None\<close> where the function returns (unsupported or invalid).
  \<open>junk\<close> is the size the uninitialised event holds, which an unmatched inner
  \<^verbatim>\<open>switch\<close> would leave in place.
\<close>

definition event_size :: "32 word \<Rightarrow> byte \<Rightarrow> 32 word option" where
  "event_size junk b =
     (let hi = b AND 0xF0; lo = b AND 0x0F in
      if hi \<in> {0x80, 0x90, 0xA0, 0xB0, 0xE0} then Some 3
      else if hi \<in> {0xC0, 0xD0} then Some 2
      else if hi = 0xF0 then
        (if lo \<in> {0x0, 0x4, 0x5, 0x7, 0x9, 0xD} then None
         else if lo \<in> {0x1, 0x2, 0x3, 0xE} then Some 3
         else if lo \<in> {0x6, 0x8, 0xA, 0xB, 0xC, 0xF} then Some 1
         else Some junk)
      else None)"

text \<open>
  \<^verbatim>\<open>CardinalPluginContext::writeMidiMessage\<close>. \<open>writeMidiEvent\<close> is the plugin's
  output towards the host; \<open>uninit\<close> is whatever the local \<^verbatim>\<open>MidiEvent event\<close> holds
  before it is filled in.
\<close>

definition writeMidiMessage ::
  "(MidiEvent \<Rightarrow> 'w \<Rightarrow> 'w) \<Rightarrow> MidiEvent \<Rightarrow> 'm Context \<Rightarrow> Message \<Rightarrow> byte \<Rightarrow> 'w \<Rightarrow> 'w" where
  "writeMidiMessage writeMidiEvent uninit c message channel w =
     (if bypassed c then w
      else
        (let sz = length (msg_bytes message) in
         if \<not> sz > 0 then w
         else if \<not> 0 \<le> sint (msg_frame message) then w
         else
           (case event_size (ev_size uninit) (msg_bytes message ! 0) of
              None \<Rightarrow> w
            | Some n \<Rightarrow>
                if \<not> sz \<ge> unat n then w
                else
                  (let d = take (unat n) (msg_bytes message) @ drop (unat n) (ev_data uninit);
                       d' = (if channel \<noteq> 0 \<and> d ! 0 < 0xF0
                             then d[0 := d ! 0 OR (channel AND 0x0F)] else d)
                   in writeMidiEvent
                        (uninit\<lparr>ev_frame := ucast (msg_frame message), ev_size := n, ev_data := d'\<rparr>)
                        w))))"

section \<open>A recording stand-in for the collaborators\<close>

text \<open>
  To run the operations on concrete inputs, the outside world is the list of calls
  made so far, and a script fixes what the collaborators answer.
\<close>

datatype call =
    CreateDirectories string
  | RemoveRecursively string
  | ArchiveDirectory string int
  | UnarchiveToDirectory "byte list" string
  | Fopen string string
  | Fwrite string "byte list"
  | Fclose string
  | PrepareSave
  | SaveAutosave
  | CleanAutosave
  | LoadAutosave
  | LoadModuleInfos string
  | SendScreenshotToRemote string

record Script =
  tmp_dir :: "string ext"
  existing :: "string list"
  mkdir_answer :: "bool ext"
  fopen_answer :: bool
  archive_answer :: "byte list ext"
  unarchive_answer :: "unit ext"
  engine_answer :: "unit ext"

definition recording :: "Script \<Rightarrow> call list System" where
  "recording sc =
     \<lparr>getTempDirectory = (\<lambda>w. tmp_dir sc),
      join = (\<lambda>a b. a @ ''/'' @ b),
      exists_path = (\<lambda>path w. Ok (List.member (existing sc) path)),
      createDirectories = (\<lambda>path w. (mkdir_answer sc, w @ [CreateDirectories path])),
      removeRecursively = (\<lambda>path w. (Ok (), w @ [RemoveRecursively path])),
      archiveDirectory = (\<lambda>path lvl w. (archive_answer sc, w @ [ArchiveDirectory path lvl])),
      unarchiveToDirectory = (\<lambda>d path w. (unarchive_answer sc, w @ [UnarchiveToDirectory d path])),
      fopen = (\<lambda>path mode w. (fopen_answer sc, w @ [Fopen path mode])),
      fwrite = (\<lambda>f d w. w @ [Fwrite f d]),
      fclose = (\<lambda>f w. w @ [Fclose f]),
      prepareSave = (\<lambda>w. (engine_answer sc, w @ [PrepareSave])),
      saveAutosave = (\<lambda>w. (engine_answer sc, w @ [SaveAutosave])),
      cleanAutosave = (\<lambda>w. (engine_answer sc, w @ [CleanAutosave])),
      loadAutosave = (\<lambda>w. (engine_answer sc, w @ [LoadAutosave])),
      asBase64 = map (\<lambda>b. char_of (unat b)),
      d_getChunkFromBase64String = map (\<lambda>c. of_nat (of_char c)),
      dumpModuleInfos = (\<lambda>w. []),
      loadModuleInfos = (\<lambda>v w. w @ [LoadModuleInfos v]),
      sendScreenshotToRemote = (\<lambda>v w. w @ [SendScreenshotToRemote v])\<rparr>"

section \<open>Observations and preconditions\<close>


text \<open>The first \<open>n\<close> samples of channel \<open>i\<close> of the channel array at \<open>arr\<close>.\<close>

definition channel_samples :: "Heap \<Rightarrow> ptr \<Rightarrow> nat \<Rightarrow> nat \<Rightarrow> sample list" where
  "channel_samples h arr i n = map (buf h (parr h arr i)) [0..<n]"

text \<open>
  What \<^verbatim>\<open>activate\<close> provides with \<^verbatim>\<open>new float[bufferSize]\<close> per input channel: scratch
  buffers that are distinct from one another and from every buffer of the host.
\<close>

definition scratch_fresh :: "Build \<Rightarrow> Heap \<Rightarrow> ptr \<Rightarrow> ptr \<Rightarrow> ptr \<Rightarrow> bool" where
  "scratch_fresh cfg h scratch inputs outputs =
     (distinct (map (parr h scratch) [0..<NUM_INPUTS cfg]) \<and>
      set (map (parr h scratch) [0..<NUM_INPUTS cfg]) \<inter>
        set (map (parr h inputs) [0..<NUM_INPUTS cfg]) = {} \<and>
      set (map (parr h scratch) [0..<NUM_INPUTS cfg]) \<inter>
        set (map (parr h outputs) [0..<NUM_OUTPUTS cfg]) = {})"




section \<open>Example inputs\<close>

text \<open>
  A two-in, two-out build, a plugin after construction and activation, and a host
  memory with the channel arrays at 10 (inputs), 20 and 40 (outputs) and 30 (scratch).
  The output array at 20 shares its second channel with the input; the one at 40
  shares both channels.
\<close>

definition example_build :: Build where
  "example_build =
     \<lparr>NUM_INPUTS = 2, NUM_OUTPUTS = 2, VARIANT_MAIN = False, HEADLESS = True, HAVE_LIBLO = False\<rparr>"

definition example_context :: "unit Context" where
  "example_context =
     \<lparr>bypassed = False, playing = False, bbtValid = False, frame = 0, reset = False,
      musical = (), dataIns = 0, dataOuts = 0, midiEvents = [], midiEventCount = 0,
      processCounter = 0\<rparr>"

definition example_plugin :: "unit Plugin" where
  "example_plugin =
     \<lparr>pcontext = example_context, fAudioBufferCopy = 30, fAutosavePath = ''/tmp/Cardinal.0001'',
      fNextExpectedFrame = 0, fState_comment = [], fState_screenshot = [],
      fState_windowSize = [], fWasBypassed = False, bypassMidiEvents = init_bypassMidiEvents\<rparr>"

definition array_of :: "'a::zero list \<Rightarrow> nat \<Rightarrow> 'a" where
  "array_of xs i = (if i < length xs then xs ! i else 0)"

definition example_heap :: Heap where
  "example_heap =
     \<lparr>parr = (\<lambda>a. if a = 10 then array_of [100, 101]
                  else if a = 20 then array_of [200, 101]
                  else if a = 30 then array_of [300, 301]
                  else if a = 40 then array_of [100, 101]
                  else array_of []),
      buf = (\<lambda>a. if a = 100 then array_of [1, 2, 3]
                 else if a = 101 then array_of [7, 8, 9]
                 else if a = 200 then array_of [4, 5, 6]
                 else array_of [])\<rparr>"

definition snapshot :: "bool \<Rightarrow> 64 word \<Rightarrow> unit TimePosition" where
  "snapshot pl f = \<lparr>tp_playing = pl, tp_frame = f, tp_bbt_valid = False, tp_bbt = ()\<rparr>"

definition keep_musical :: "unit \<Rightarrow> unit \<Rightarrow> unit" where
  "keep_musical b m = m"

definition idle_engine :: "32 word \<Rightarrow> unit Context \<Rightarrow> Heap \<times> unit \<Rightarrow> Heap \<times> unit" where
  "idle_engine n c he = he"

definition note_on :: MidiEvent where
  "note_on = \<lparr>ev_frame = 0, ev_size = 3, ev_data = [0x90, 60, 100, 0], ev_dataExt = 0\<rparr>"

definition example_script :: Script where
  "example_script =
     \<lparr>tmp_dir = Ok ''/tmp'', existing = [''/tmp/Cardinal.0001'', ''/tmp/Cardinal.0002''],
      mkdir_answer = Ok True, fopen_answer = True, archive_answer = Raise,
      unarchive_answer = Ok (), engine_answer = Ok ()\<rparr>"

section \<open>Auxiliary facts: transport and MIDI\<close>

lemma diff_limit_abs:
  "d_isDiffHigherThanLimit a b l = (\<bar>uint a - uint b\<bar> > uint l)"
proof (cases "b < a")
  case True
  then have "b \<le> a" and "a \<noteq> b" by simp_all
  then have "uint (a - b) = uint a - uint b" by (simp add: uint_minus_simple_alt)
  moreover from True have "uint b < uint a" by (simp add: word_less_def)
  ultimately show ?thesis using True \<open>a \<noteq> b\<close>
    by (simp add: d_isDiffHigherThanLimit_def word_less_def)
next
  case False
  then have le: "a \<le> b" by simp
  then have "uint (b - a) = uint b - uint a" by (simp add: uint_minus_simple_alt)
  moreover from le have "uint a \<le> uint b" by (simp add: word_le_def)
  moreover have "a = b \<Longrightarrow> \<not> uint l < 0" by simp
  ultimately show ?thesis using False
    by (auto simp add: d_isDiffHigherThanLimit_def word_less_def)
qed

lemmas run_defs = run_def run_prepare_def run_midi_def run_buffers_def run_transport_def Let_def

lemma run_reset:
  "reset (pcontext (fst (run cfg bu step tp ins outs n evs en s))) =
     (tp_playing tp \<and>
      (tp_frame tp = 0 \<or> \<bar>uint (fNextExpectedFrame (fst s)) - uint (tp_frame tp)\<bar> > 2) \<and>
      \<not> (playing (pcontext (fst s)) \<and> tp_playing tp \<and> tp_frame tp = 0 \<and>
         frame (pcontext (fst s)) = 0))"
  by (auto simp add: run_defs diff_limit_abs)

lemma run_playing:
  "playing (pcontext (fst (run cfg bu step tp ins outs n evs en s))) = tp_playing tp"
  by (simp add: run_defs)

lemma run_frame:
  "frame (pcontext (fst (run cfg bu step tp ins outs n evs en s))) = tp_frame tp"
  by (simp add: run_defs)

lemma run_expected:
  "fNextExpectedFrame (fst (run cfg bu step tp ins outs n evs en s)) =
     (if tp_playing tp then tp_frame tp + ucast n else 0)"
  by (simp add: run_defs)

lemma run_midiEvents:
  "midiEvents (pcontext (fst (run cfg bu step tp ins outs n evs en s))) =
     (if bypassed (pcontext (fst s))
      then (if fWasBypassed (fst s) then [] else bypassMidiEvents (fst s))
      else evs)"
  by (simp add: run_defs)

lemma run_midiEventCount:
  "midiEventCount (pcontext (fst (run cfg bu step tp ins outs n evs en s))) =
     (if bypassed (pcontext (fst s))
      then (if fWasBypassed (fst s) then 0 else 16)
      else en)"
  by (simp add: run_defs)



lemma run_calls_engine:
  "run cfg bu step tp ins outs n evs en (p, h, e) =
     ((fst (run_prepare cfg bu tp ins outs n evs en (p, h)))\<lparr>fWasBypassed := bypassed (pcontext p)\<rparr>,
      step n (pcontext (fst (run_prepare cfg bu tp ins outs n evs en (p, h))))
        (snd (run_prepare cfg bu tp ins outs n evs en (p, h)), e))"
  by (simp add: run_def Let_def)

lemma run_context:
  "pcontext (fst (run cfg bu step tp ins outs n evs en (p, h, e))) =
     pcontext (fst (run_prepare cfg bu tp ins outs n evs en (p, h)))"
  by (simp add: run_calls_engine)







section \<open>Auxiliary facts: buffers\<close>

lemma parr_copy_channel: "parr (copy_channel cfg ins sc n i h) = parr h"
  by (simp add: copy_channel_def memcpy_samples_def)

lemma parr_fold_copy: "parr (fold (copy_channel cfg ins sc n) js h) = parr h"
  by (induction js arbitrary: h) (simp_all add: parr_copy_channel)

lemma buf_copy_channel_other:
  "q \<noteq> parr h sc i \<Longrightarrow> buf (copy_channel cfg ins sc n i h) q = buf h q"
  by (simp add: copy_channel_def memcpy_samples_def)

lemma buf_fold_copy_other:
  "q \<notin> set (map (parr h sc) js) \<Longrightarrow> buf (fold (copy_channel cfg ins sc n) js h) q = buf h q"
proof (induction js arbitrary: h)
  case Nil
  then show ?case by simp
next
  case (Cons j js)
  have "buf (fold (copy_channel cfg ins sc n) js (copy_channel cfg ins sc n j h)) q
        = buf (copy_channel cfg ins sc n j h) q"
    using Cons.prems by (intro Cons.IH) (simp add: parr_copy_channel)
  also have "\<dots> = buf h q"
    using Cons.prems by (simp add: buf_copy_channel_other)
  finally show ?case by simp
qed

lemma buf_copy_channel_here:
  "\<not> (VARIANT_MAIN cfg \<and> parr h ins i = 0) \<Longrightarrow> k < n \<Longrightarrow>
   buf (copy_channel cfg ins sc n i h) (parr h sc i) k = buf h (parr h ins i) k"
  by (auto simp add: copy_channel_def memcpy_samples_def)

lemma buf_fold_copy_here:
  assumes "distinct (map (parr h sc) js)"
    and "set (map (parr h sc) js) \<inter> set (map (parr h ins) js) = {}"
    and "i \<in> set js" and "\<not> (VARIANT_MAIN cfg \<and> parr h ins i = 0)" and "k < n"
  shows "buf (fold (copy_channel cfg ins sc n) js h) (parr h sc i) k = buf h (parr h ins i) k"
  using assms
proof (induction js arbitrary: h)
  case Nil
  then show ?case by simp
next
  case (Cons j js)
  let ?h1 = "copy_channel cfg ins sc n j h"
  have p1: "parr ?h1 = parr h" by (rule parr_copy_channel)
  show ?case
  proof (cases "i = j")
    case True
    have "parr h sc j \<notin> set (map (parr ?h1 sc) js)"
      using Cons.prems(1) by (simp add: p1)
    then have "buf (fold (copy_channel cfg ins sc n) js ?h1) (parr h sc j) = buf ?h1 (parr h sc j)"
      by (rule buf_fold_copy_other)
    then show ?thesis
      using True Cons.prems(4,5) by (simp add: buf_copy_channel_here)
  next
    case False
    then have mem: "i \<in> set js" using Cons.prems(3) by simp
    have d: "distinct (map (parr ?h1 sc) js)" using Cons.prems(1) by (simp add: p1)
    have dj: "set (map (parr ?h1 sc) js) \<inter> set (map (parr ?h1 ins) js) = {}"
      using Cons.prems(2) by (auto simp: p1)
    have nm: "\<not> (VARIANT_MAIN cfg \<and> parr ?h1 ins i = 0)" using Cons.prems(4) by (simp add: p1)
    have "buf (fold (copy_channel cfg ins sc n) js ?h1) (parr ?h1 sc i) k = buf ?h1 (parr ?h1 ins i) k"
      using d dj mem nm Cons.prems(5) by (rule Cons.IH)
    moreover have "parr h ins i \<noteq> parr h sc j"
    proof
      assume eq: "parr h ins i = parr h sc j"
      have "parr h sc j \<in> set (map (parr h sc) (j # js))" by simp
      moreover have "parr h ins i \<in> set (map (parr h ins) (j # js))" using mem by simp
      ultimately show False using Cons.prems(2) eq by (metis disjoint_iff)
    qed
    ultimately show ?thesis
      by (simp add: p1 buf_copy_channel_other)
  qed
qed

lemma parr_clear_channel: "parr (clear_channel cfg outs n i h) = parr h"
  by (simp add: clear_channel_def memset_zero_def)

lemma parr_fold_clear: "parr (fold (clear_channel cfg outs n) js h) = parr h"
  by (induction js arbitrary: h) (simp_all add: parr_clear_channel)

lemma buf_clear_channel_other:
  "q \<noteq> parr h outs i \<Longrightarrow> buf (clear_channel cfg outs n i h) q = buf h q"
  by (simp add: clear_channel_def memset_zero_def)

lemma buf_fold_clear_other:
  "q \<notin> set (map (parr h outs) js) \<Longrightarrow> buf (fold (clear_channel cfg outs n) js h) q = buf h q"
proof (induction js arbitrary: h)
  case Nil
  then show ?case by simp
next
  case (Cons j js)
  have "buf (fold (clear_channel cfg outs n) js (clear_channel cfg outs n j h)) q
        = buf (clear_channel cfg outs n j h) q"
    using Cons.prems by (intro Cons.IH) (simp add: parr_clear_channel)
  also have "\<dots> = buf h q"
    using Cons.prems by (simp add: buf_clear_channel_other)
  finally show ?case by simp
qed

lemma buf_clear_channel_zero:
  "k < n \<Longrightarrow> buf h q k = 0 \<Longrightarrow> buf (clear_channel cfg outs n j h) q k = 0"
  by (simp add: clear_channel_def memset_zero_def)

lemma buf_fold_clear_zero:
  "k < n \<Longrightarrow> buf h q k = 0 \<Longrightarrow> buf (fold (clear_channel cfg outs n) js h) q k = 0"
  by (induction js arbitrary: h) (simp_all add: buf_clear_channel_zero)

lemma buf_clear_channel_here:
  "\<not> (VARIANT_MAIN cfg \<and> parr h outs i = 0) \<Longrightarrow> k < n \<Longrightarrow>
   buf (clear_channel cfg outs n i h) (parr h outs i) k = 0"
  by (auto simp add: clear_channel_def memset_zero_def)

lemma buf_fold_clear_here:
  assumes "i \<in> set js" and "\<not> (VARIANT_MAIN cfg \<and> parr h outs i = 0)" and "k < n"
  shows "buf (fold (clear_channel cfg outs n) js h) (parr h outs i) k = 0"
  using assms
proof (induction js arbitrary: h)
  case Nil
  then show ?case by simp
next
  case (Cons j js)
  let ?h1 = "clear_channel cfg outs n j h"
  have p1: "parr ?h1 = parr h" by (rule parr_clear_channel)
  show ?case
  proof (cases "i = j")
    case True
    have "buf ?h1 (parr h outs j) k = 0"
      using Cons.prems(2,3) True by (simp add: buf_clear_channel_here)
    then have "buf (fold (clear_channel cfg outs n) js ?h1) (parr h outs j) k = 0"
      using Cons.prems(3) by (intro buf_fold_clear_zero)
    then show ?thesis using True by simp
  next
    case False
    then have "i \<in> set js" using Cons.prems(1) by simp
    moreover have "\<not> (VARIANT_MAIN cfg \<and> parr ?h1 outs i = 0)"
      using Cons.prems(2) by (simp add: p1)
    ultimately have "buf (fold (clear_channel cfg outs n) js ?h1) (parr ?h1 outs i) k = 0"
      using Cons.prems(3) by (intro Cons.IH)
    then show ?thesis by (simp add: p1)
  qed
qed

lemma prepare_heap:
  "snd (run_prepare cfg bu tp ins outs n evs en (p, h)) =
     clear_outputs cfg outs (unat n)
       (if separate_buffers h ins outs \<or> NUM_INPUTS cfg = 0 then h
        else copy_inputs cfg ins (fAudioBufferCopy p) (unat n) h)"
  by (simp add: run_prepare_def run_buffers_def run_transport_def Let_def)

lemma prepare_dataIns:
  "dataIns (pcontext (fst (run_prepare cfg bu tp ins outs n evs en (p, h)))) =
     (if separate_buffers h ins outs then ins
      else if NUM_INPUTS cfg \<noteq> 0 then fAudioBufferCopy p else 0)"
  by (simp add: run_prepare_def run_buffers_def run_transport_def run_midi_def Let_def)

lemma prepare_copy_samples:
  assumes ns: "\<not> separate_buffers h ins outs"
    and fresh: "scratch_fresh cfg h (fAudioBufferCopy p) ins outs"
    and i: "i < NUM_INPUTS cfg"
    and nonnull: "\<not> (VARIANT_MAIN cfg \<and> parr h ins i = 0)"
  shows "channel_samples (snd (run_prepare cfg bu tp ins outs n evs en (p, h)))
           (fAudioBufferCopy p) i (unat n) = channel_samples h ins i (unat n)"
proof -
  let ?sc = "fAudioBufferCopy p"
  let ?h1 = "copy_inputs cfg ins ?sc (unat n) h"
  let ?h2 = "clear_outputs cfg outs (unat n) ?h1"
  from i have ni: "NUM_INPUTS cfg \<noteq> 0" by auto
  have h2: "snd (run_prepare cfg bu tp ins outs n evs en (p, h)) = ?h2"
    using ns ni by (simp add: prepare_heap)
  have p1: "parr ?h1 = parr h" by (simp add: copy_inputs_def parr_fold_copy)
  have p2: "parr ?h2 = parr h" by (simp add: clear_outputs_def parr_fold_clear p1)
  have iset: "i \<in> set [0..<NUM_INPUTS cfg]" using i by simp
  have "parr h ?sc i \<in> set (map (parr h ?sc) [0..<NUM_INPUTS cfg])"
    using i by simp
  then have notout: "parr h ?sc i \<notin> set (map (parr ?h1 outs) [0..<NUM_OUTPUTS cfg])"
    using fresh unfolding scratch_fresh_def p1 by (metis disjoint_iff)
  have b2: "buf ?h2 (parr h ?sc i) = buf ?h1 (parr h ?sc i)"
    unfolding clear_outputs_def using notout by (rule buf_fold_clear_other)
  have b1: "\<And>k. k < unat n \<Longrightarrow> buf ?h1 (parr h ?sc i) k = buf h (parr h ins i) k"
    unfolding copy_inputs_def
    using fresh iset nonnull unfolding scratch_fresh_def
    by (intro buf_fold_copy_here) auto
  show ?thesis
    unfolding h2 channel_samples_def by (simp add: p2 b2 b1)
qed


section \<open>Auxiliary facts: patch state\<close>

lemma find_unused_first:
  assumes "nat (k - i) = d" "i \<le> k" "k \<le> INT_MAX"
    and "\<forall>j. i \<le> j \<and> j < k \<longrightarrow> exists_path sys (join sys tmp (uidBuf j)) w = Ok True"
    and "exists_path sys (join sys tmp (uidBuf k)) w = Ok False"
  shows "find_unused sys tmp w i = Some (create_or_empty sys (join sys tmp (uidBuf k)) w)"
  using assms
proof (induction d arbitrary: i)
  case 0
  then have "i = k" by simp
  then show ?case using "0.prems"(5) by simp
next
  case (Suc d)
  then have lt: "i < k" by simp
  then have ex: "exists_path sys (join sys tmp (uidBuf i)) w = Ok True"
    using Suc.prems(4) by simp
  have "find_unused sys tmp w (i + 1) = Some (create_or_empty sys (join sys tmp (uidBuf k)) w)"
    using Suc.prems lt by (intro Suc.IH) auto
  moreover have "i < INT_MAX" using lt Suc.prems(3) by simp
  ultimately show ?case using ex by simp
qed

lemma create_or_empty_path:
  "fst (create_or_empty sys path w) =
     (if fst (createDirectories sys path w) = Ok True then path else [])"
  by (simp add: create_or_empty_def split: prod.splits ext.splits bool.splits)

lemma create_or_empty_world:
  "snd (create_or_empty sys path w) = snd (createDirectories sys path w)"
  by (simp add: create_or_empty_def split: prod.splits ext.splits bool.splits)

lemma getState_empty_path:
  "fAutosavePath p = [] \<Longrightarrow> getState cfg sys ''patch'' p w = (Return [], w)"
  by (simp add: getState_def)

lemma setState_empty_path:
  "fAutosavePath p = [] \<Longrightarrow> setState cfg sys ''patch'' v (p, w) = (Return (), p, w)"
  by (simp add: setState_def)

section \<open>Patch decode\<close>

text \<open>
  Claim C1. A decoded blob of at least 4 bytes is unarchived into the staging directory
  if and only if its first 4 bytes are \<open>28 B5 2F FD\<close>; any other blob is written
  verbatim as \<^verbatim>\<open>patch.json\<close>.

  The code compares \<^verbatim>\<open>sizeof(zstdMagic)\<close> bytes, and the array includes the literal's
  terminating zero: five bytes are compared. A blob that starts with the four magic
  bytes and continues with a non-zero byte is therefore written verbatim as
  \<^verbatim>\<open>patch.json\<close> and never reaches the unarchiver. The evaluation below runs the decode
  on the blob \<open>28 B5 2F FD 04\<close> and lists the calls it makes.
\<close>

theorem setState_patch_magic_fifth_byte:
  "setState_patch (recording example_script) [0x28, 0xB5, 0x2F, 0xFD, 0x04] (example_plugin, []) =
     (Return (), example_plugin,
      [RemoveRecursively ''/tmp/Cardinal.0001'', CreateDirectories ''/tmp/Cardinal.0001'',
       Fopen ''/tmp/Cardinal.0001/patch.json'' ''w'',
       Fwrite ''/tmp/Cardinal.0001/patch.json'' [0x28, 0xB5, 0x2F, 0xFD, 0x04],
       Fclose ''/tmp/Cardinal.0001/patch.json'', LoadAutosave])"
  by (simp add: setState_patch_def recording_def example_script_def example_plugin_def zstdMagic_def
      Let_def)

text \<open>
  For comparison: with a zero fifth byte the blob is unarchived, a blob of exactly the
  four magic bytes makes \<^verbatim>\<open>memcmp\<close> read past its end, and in general the unarchiver
  is reached exactly when the first five bytes are the magic and a zero.
\<close>

lemma setState_patch_magic_zero_byte:
  "setState_patch (recording example_script) [0x28, 0xB5, 0x2F, 0xFD, 0x00] (example_plugin, []) =
     (Return (), example_plugin,
      [RemoveRecursively ''/tmp/Cardinal.0001'', CreateDirectories ''/tmp/Cardinal.0001'',
       UnarchiveToDirectory [0x28, 0xB5, 0x2F, 0xFD, 0x00] ''/tmp/Cardinal.0001'', LoadAutosave])"
  by (simp add: setState_patch_def recording_def example_script_def example_plugin_def zstdMagic_def)

lemma setState_patch_magic_only:
  "fst (setState_patch (recording example_script) [0x28, 0xB5, 0x2F, 0xFD] (example_plugin, [])) = Undefined"
  by (simp add: setState_patch_def recording_def example_script_def example_plugin_def zstdMagic_def)

lemma memcmp_equal:
  "n \<le> length ys \<Longrightarrow> (memcmp xs ys n = Some 0) = (take n xs = take n ys \<and> n \<le> length xs)"
proof (induction n arbitrary: xs ys)
  case 0
  then show ?case by simp
next
  case (Suc n)
  then obtain y ys' where ys: "ys = y # ys'" by (cases ys) auto
  show ?case
  proof (cases xs)
    case Nil
    then show ?thesis by (simp add: ys)
  next
    case (Cons x xs')
    show ?thesis
    proof (cases "x = y")
      case True
      then show ?thesis using Suc.IH [of ys' xs'] Suc.prems by (simp add: ys Cons)
    next
      case False
      then have "uint x \<noteq> uint y" by (simp add: word_uint_eq_iff)
      then show ?thesis using False by (simp add: ys Cons)
    qed
  qed
qed

lemma memcmp_zstdMagic:
  "length zstdMagic \<le> length data \<Longrightarrow>
   (memcmp data zstdMagic (length zstdMagic) = Some 0) = (take (length zstdMagic) data = zstdMagic)"
  using memcmp_equal [of "length zstdMagic" zstdMagic data] by simp

lemma memcmp_defined:
  "n \<le> length xs \<Longrightarrow> n \<le> length ys \<Longrightarrow> \<exists>d. memcmp xs ys n = Some d"
proof (induction n arbitrary: xs ys)
  case 0
  then show ?case by simp
next
  case (Suc n)
  then obtain x xs' y ys' where "xs = x # xs'" "ys = y # ys'"
    by (cases xs; cases ys) auto
  with Suc show ?case by simp
qed

text \<open>
  Container detection as the code performs it: once the staging directory has been
  cleared and recreated, a blob of five or more bytes goes to the unarchiver exactly
  when its first five bytes are \<open>28 B5 2F FD 00\<close>, and is written verbatim to
  \<^verbatim>\<open>patch.json\<close> otherwise.
\<close>

theorem setState_patch_container_detection:
  assumes "length zstdMagic \<le> length data"
    and "removeRecursively sys (fAutosavePath p) w = (Ok u1, w1)"
    and "createDirectories sys (fAutosavePath p) w1 = (Ok b, w2)"
  shows "setState_patch sys data (p, w) =
     (if take 5 data = [0x28, 0xB5, 0x2F, 0xFD, 0x00]
      then (case unarchiveToDirectory sys data (fAutosavePath p) w2 of
              (Raise, w3) \<Rightarrow> (Return (), p, w3)
            | (Ok _, w3) \<Rightarrow> (Return (), p, snd (loadAutosave sys w3)))
      else (case fopen sys (join sys (fAutosavePath p) ''patch.json'') ''w'' w2 of
              (False, w3) \<Rightarrow> (Return (), p, w3)
            | (True, w3) \<Rightarrow>
                (Return (), p,
                 snd (loadAutosave sys
                        (fclose sys (join sys (fAutosavePath p) ''patch.json'')
                           (fwrite sys (join sys (fAutosavePath p) ''patch.json'') data w3))))))"
proof -
  have len: "4 \<le> length data" "5 \<le> length data"
    using assms(1) by (simp_all add: zstdMagic_def)
  obtain d where d: "memcmp data zstdMagic (length zstdMagic) = Some d"
    using memcmp_defined [OF assms(1) order_refl] by blast
  have l5: "length zstdMagic = 5"
    by (simp add: zstdMagic_def)
  have "(d = 0) = (take (length zstdMagic) data = zstdMagic)"
    using memcmp_zstdMagic [OF assms(1)] d by simp
  then have "(d = 0) = (take 5 data = zstdMagic)"
    by (simp only: l5)
  then have eq: "(d = 0) = (take 5 data = [0x28, 0xB5, 0x2F, 0xFD, 0x00])"
    by (simp add: zstdMagic_def)
  show ?thesis
    using len assms(2,3) d eq by (simp add: setState_patch_def Let_def)
qed

theorem setState_patch_container_detection_witness:
  "length zstdMagic \<le> length [0x28, 0xB5, 0x2F, 0xFD, 0x00 :: byte] \<and>
   removeRecursively (recording example_script) (fAutosavePath example_plugin) [] =
     (Ok (), [RemoveRecursively ''/tmp/Cardinal.0001'']) \<and>
   createDirectories (recording example_script) (fAutosavePath example_plugin)
       [RemoveRecursively ''/tmp/Cardinal.0001''] =
     (Ok True, [RemoveRecursively ''/tmp/Cardinal.0001'', CreateDirectories ''/tmp/Cardinal.0001'']) \<and>
   setState_patch (recording example_script) [0x28, 0xB5, 0x2F, 0xFD, 0x00] (example_plugin, []) =
     (Return (), example_plugin,
      [RemoveRecursively ''/tmp/Cardinal.0001'', CreateDirectories ''/tmp/Cardinal.0001'',
       UnarchiveToDirectory [0x28, 0xB5, 0x2F, 0xFD, 0x00] ''/tmp/Cardinal.0001'', LoadAutosave])"
proof -
  have a: "length zstdMagic \<le> length [0x28, 0xB5, 0x2F, 0xFD, 0x00 :: byte]"
    by (simp add: zstdMagic_def)
  have b: "removeRecursively (recording example_script) (fAutosavePath example_plugin) [] =
     (Ok (), [RemoveRecursively ''/tmp/Cardinal.0001''])"
    by (simp add: recording_def example_plugin_def)
  have c: "createDirectories (recording example_script) (fAutosavePath example_plugin)
       [RemoveRecursively ''/tmp/Cardinal.0001''] =
     (Ok True, [RemoveRecursively ''/tmp/Cardinal.0001'', CreateDirectories ''/tmp/Cardinal.0001''])"
    by (simp add: recording_def example_plugin_def example_script_def)
  have "setState_patch (recording example_script) [0x28, 0xB5, 0x2F, 0xFD, 0x00] (example_plugin, []) =
     (Return (), example_plugin,
      [RemoveRecursively ''/tmp/Cardinal.0001'', CreateDirectories ''/tmp/Cardinal.0001'',
       UnarchiveToDirectory [0x28, 0xB5, 0x2F, 0xFD, 0x00] ''/tmp/Cardinal.0001'', LoadAutosave])"
    unfolding setState_patch_container_detection [OF a b c]
    by (simp add: recording_def example_plugin_def example_script_def)
  with a b c show ?thesis by (intro conjI)
qed

text \<open>
  Claim C2. A blob whose decoded length is less than 4 makes \<^verbatim>\<open>setState\<close> with key
  "patch" return without touching anything: the plugin and the outside world (staging
  directory, engine) are exactly as before, whatever the collaborators would have done.
\<close>

theorem setState_short_blob:
  "length (d_getChunkFromBase64String sys v) < 4 \<Longrightarrow>
   setState cfg sys ''patch'' v (p, w) = (Return (), p, w)"
  by (simp add: setState_def setState_patch_def)

theorem setState_short_blob_witness:
  "length (d_getChunkFromBase64String (recording example_script) ''abc'') < 4 \<and>
   fAutosavePath example_plugin \<noteq> [] \<and>
   setState example_build (recording example_script) ''patch'' ''abc'' (example_plugin, []) =
     (Return (), example_plugin, [])"
proof -
  have len: "length (d_getChunkFromBase64String (recording example_script) ''abc'') < 4"
    by (simp add: recording_def)
  have "fAutosavePath example_plugin \<noteq> []"
    by (simp add: example_plugin_def)
  with len setState_short_blob [OF len, of example_build example_plugin "[]"]
  show ?thesis by simp
qed

section \<open>Buffer aliasing\<close>

text \<open>
  Claim C3. For every channel whose input pointer equals its output pointer the engine
  observes the pre-call contents of the host buffer (through the scratch copy), and
  the zero-copy path is taken only when the input array's base differs from the
  output array's base and no corresponding per-channel pointers are equal.

  The code sets out to do this: the scratch array exists as a "safe copy" for in-place
  processing, the copy loop of the else-branch goes through every channel, and the
  zero-copy branch is commented "separate buffers, use them". But the test of line 938
  compares the two array bases and channel 0 only. In the example memory the arrays at
  10 and 20 differ, channel 0 differs (buffers 100 and 200), and channel 1 is the same
  buffer 101 holding 7, 8, 9: the zero-copy path is taken, the output loop clears
  buffer 101, and the engine reads zeros on input channel 1.
\<close>

theorem run_alias_second_channel_counterexample:
  "parr example_heap 10 1 = parr example_heap 20 1 \<and>
   channel_samples example_heap 10 1 3 = [7, 8, 9] \<and>
   dataIns (pcontext (fst (run_prepare example_build keep_musical (snapshot False 0) 10 20 3 [] 0
                             (example_plugin, example_heap)))) = 10 \<and>
   channel_samples (snd (run_prepare example_build keep_musical (snapshot False 0) 10 20 3 [] 0
                             (example_plugin, example_heap))) 10 1 3 = [0, 0, 0]"
proof -
  have sep: "separate_buffers example_heap 10 20"
    by (simp add: separate_buffers_def example_heap_def array_of_def)
  have up: "[0..<3] = [0, 1, 2]" "[0..<2] = [0, 1]"
    by (simp_all add: upt_rec)
  have a: "parr example_heap 10 1 = parr example_heap 20 1"
    by (simp add: example_heap_def array_of_def)
  have b: "channel_samples example_heap 10 1 3 = [7, 8, 9]"
    by (simp add: channel_samples_def example_heap_def array_of_def up)
  have c: "dataIns (pcontext (fst (run_prepare example_build keep_musical (snapshot False 0) 10 20 3 [] 0
                             (example_plugin, example_heap)))) = 10"
    using sep by (simp add: prepare_dataIns)
  have h: "snd (run_prepare example_build keep_musical (snapshot False 0) 10 20 3 [] 0
                             (example_plugin, example_heap)) =
           clear_outputs example_build 20 3 example_heap"
    using sep by (simp add: prepare_heap)
  have d: "channel_samples (clear_outputs example_build 20 3 example_heap) 10 1 3 = [0, 0, 0]"
    by (simp add: channel_samples_def clear_outputs_def clear_channel_def memset_zero_def
        example_build_def example_heap_def array_of_def up)
  from a b c d show ?thesis by (simp only: h simp_thms)
qed

text \<open>
  The same for any memory: when the test of line 938 passes, every channel whose input
  pointer is also its output pointer reaches the engine as silence.
\<close>

theorem run_aliased_channel_cleared:
  assumes "separate_buffers h ins outs"
    and "i < NUM_OUTPUTS cfg"
    and "parr h ins i = parr h outs i"
    and "\<not> (VARIANT_MAIN cfg \<and> parr h outs i = 0)"
  shows "snd (run cfg bu step tp ins outs n evs en (p, h, e)) =
      step n (pcontext (fst (run_prepare cfg bu tp ins outs n evs en (p, h))))
        (snd (run_prepare cfg bu tp ins outs n evs en (p, h)), e) \<and>
    dataIns (pcontext (fst (run_prepare cfg bu tp ins outs n evs en (p, h)))) = ins \<and>
    channel_samples (snd (run_prepare cfg bu tp ins outs n evs en (p, h))) ins i (unat n) =
      replicate (unat n) 0"
proof (intro conjI)
  show "snd (run cfg bu step tp ins outs n evs en (p, h, e)) =
      step n (pcontext (fst (run_prepare cfg bu tp ins outs n evs en (p, h))))
        (snd (run_prepare cfg bu tp ins outs n evs en (p, h)), e)"
    by (simp add: run_calls_engine)
  show "dataIns (pcontext (fst (run_prepare cfg bu tp ins outs n evs en (p, h)))) = ins"
    using assms(1) by (simp add: prepare_dataIns)
  let ?h' = "clear_outputs cfg outs (unat n) h"
  have h': "snd (run_prepare cfg bu tp ins outs n evs en (p, h)) = ?h'"
    using assms(1) by (simp add: prepare_heap)
  have pa: "parr ?h' = parr h"
    by (simp add: clear_outputs_def parr_fold_clear)
  have "i \<in> set [0..<NUM_OUTPUTS cfg]"
    using assms(2) by simp
  then have z: "\<And>k. k < unat n \<Longrightarrow> buf ?h' (parr h outs i) k = 0"
    unfolding clear_outputs_def using assms(4) by (intro buf_fold_clear_here)
  show "channel_samples (snd (run_prepare cfg bu tp ins outs n evs en (p, h))) ins i (unat n) =
      replicate (unat n) 0"
    unfolding h' channel_samples_def
    by (simp add: pa assms(3) z list_eq_iff_nth_eq)
qed

theorem run_aliased_channel_cleared_witness:
  "separate_buffers example_heap 10 20 \<and> 1 < NUM_OUTPUTS example_build \<and>
   parr example_heap 10 1 = parr example_heap 20 1 \<and>
   \<not> (VARIANT_MAIN example_build \<and> parr example_heap 20 1 = 0) \<and>
   channel_samples example_heap 10 1 3 = [7, 8, 9] \<and>
   channel_samples (snd (run_prepare example_build keep_musical (snapshot False 0) 10 20 3 [] 0
                           (example_plugin, example_heap))) 10 1 3 = replicate 3 0"
proof -
  have up: "[0..<3] = [0, 1, 2]"
    by (simp add: upt_rec)
  have a: "separate_buffers example_heap 10 20"
    by (simp add: separate_buffers_def example_heap_def array_of_def)
  have b: "1 < NUM_OUTPUTS example_build"
    by (simp add: example_build_def)
  have c: "parr example_heap 10 1 = parr example_heap 20 1"
    by (simp add: example_heap_def array_of_def)
  have d: "\<not> (VARIANT_MAIN example_build \<and> parr example_heap 20 1 = 0)"
    by (simp add: example_build_def)
  have pre: "channel_samples example_heap 10 1 3 = [7, 8, 9]"
    by (simp add: channel_samples_def example_heap_def array_of_def up)
  have u3: "unat (3 :: 32 word) = 3" by simp
  from run_aliased_channel_cleared [OF a b c d, where n = 3 and bu = keep_musical
      and tp = "snapshot False 0" and evs = "[]" and en = 0 and step = idle_engine and e = "()"
      and p = example_plugin]
  have "channel_samples (snd (run_prepare example_build keep_musical (snapshot False 0) 10 20 3 [] 0
                           (example_plugin, example_heap))) 10 1 3 = replicate 3 0"
    unfolding u3 by (elim conjE)
  with a b c d pre show ?thesis by (intro conjI)
qed

text \<open>
  When the test of line 938 fails, the engine's input view is the scratch array, and
  each of its channels (a null input on the main variant apart) holds the pre-call
  contents of the host's input channel; the engine is called with exactly this context
  and memory.
\<close>

theorem run_scratch_copy:
  assumes "scratch_fresh cfg h (fAudioBufferCopy p) ins outs"
    and "\<not> separate_buffers h ins outs"
    and "i < NUM_INPUTS cfg"
    and "\<not> (VARIANT_MAIN cfg \<and> parr h ins i = 0)"
  shows "snd (run cfg bu step tp ins outs n evs en (p, h, e)) =
      step n (pcontext (fst (run_prepare cfg bu tp ins outs n evs en (p, h))))
        (snd (run_prepare cfg bu tp ins outs n evs en (p, h)), e) \<and>
    dataIns (pcontext (fst (run_prepare cfg bu tp ins outs n evs en (p, h)))) = fAudioBufferCopy p \<and>
    channel_samples (snd (run_prepare cfg bu tp ins outs n evs en (p, h)))
      (fAudioBufferCopy p) i (unat n) = channel_samples h ins i (unat n)"
proof (intro conjI)
  show "snd (run cfg bu step tp ins outs n evs en (p, h, e)) =
      step n (pcontext (fst (run_prepare cfg bu tp ins outs n evs en (p, h))))
        (snd (run_prepare cfg bu tp ins outs n evs en (p, h)), e)"
    by (simp add: run_calls_engine)
  show "dataIns (pcontext (fst (run_prepare cfg bu tp ins outs n evs en (p, h)))) = fAudioBufferCopy p"
    using assms(2,3) by (auto simp add: prepare_dataIns)
  show "channel_samples (snd (run_prepare cfg bu tp ins outs n evs en (p, h)))
      (fAudioBufferCopy p) i (unat n) = channel_samples h ins i (unat n)"
    using assms by (intro prepare_copy_samples)
qed

theorem run_scratch_copy_witness:
  "scratch_fresh example_build example_heap (fAudioBufferCopy example_plugin) 10 40 \<and>
   \<not> separate_buffers example_heap 10 40 \<and> 1 < NUM_INPUTS example_build \<and>
   \<not> (VARIANT_MAIN example_build \<and> parr example_heap 10 1 = 0) \<and>
   parr example_heap 10 1 = parr example_heap 40 1 \<and>
   dataIns (pcontext (fst (run_prepare example_build keep_musical (snapshot False 0) 10 40 3 [] 0
                             (example_plugin, example_heap)))) = 30 \<and>
   channel_samples (snd (run_prepare example_build keep_musical (snapshot False 0) 10 40 3 [] 0
                             (example_plugin, example_heap))) 30 1 3 = [7, 8, 9]"
proof -
  have up: "[0..<3] = [0, 1, 2]" "[0..<2] = [0, 1]"
    by (simp_all add: upt_rec)
  have sc: "fAudioBufferCopy example_plugin = 30"
    by (simp add: example_plugin_def)
  have fresh: "scratch_fresh example_build example_heap (fAudioBufferCopy example_plugin) 10 40"
    by (simp add: scratch_fresh_def example_build_def example_heap_def array_of_def up sc)
  have ns: "\<not> separate_buffers example_heap 10 40"
    by (simp add: separate_buffers_def example_heap_def array_of_def)
  have i: "1 < NUM_INPUTS example_build"
    by (simp add: example_build_def)
  have nn: "\<not> (VARIANT_MAIN example_build \<and> parr example_heap 10 1 = 0)"
    by (simp add: example_build_def)
  have al: "parr example_heap 10 1 = parr example_heap 40 1"
    by (simp add: example_heap_def array_of_def)
  have pre: "channel_samples example_heap 10 1 3 = [7, 8, 9]"
    by (simp add: channel_samples_def example_heap_def array_of_def up)
  note v = run_scratch_copy [OF fresh ns i nn, where n = 3 and bu = keep_musical
      and tp = "snapshot False 0" and evs = "[]" and en = 0 and step = idle_engine and e = "()"]
  from v pre have
    "dataIns (pcontext (fst (run_prepare example_build keep_musical (snapshot False 0) 10 40 3 [] 0
                             (example_plugin, example_heap)))) = 30"
    "channel_samples (snd (run_prepare example_build keep_musical (snapshot False 0) 10 40 3 [] 0
                             (example_plugin, example_heap))) 30 1 3 = [7, 8, 9]"
    by (simp_all add: sc)
  then show ?thesis using fresh ns i nn al by simp
qed

section \<open>Transport\<close>

text \<open>
  Claim C4. For every snapshot with playing=true: if the absolute difference between
  the stored expected frame and the frame exceeds 2, or the frame is 0, the reset flag
  is true; and if the expected frame equals the frame exactly, the reset flag is false.

  Two blocks of 512 frames from a freshly activated plugin, on a host that is playing
  and reports frame 0 both times: in the first block the expected frame equals the
  frame (both 0) and the flag is true; in the second the frame is 0 and is 512 away
  from the expected frame, and the flag is false.
\<close>

theorem reset_at_frame_zero_counterexample:
  "tp_playing (snapshot True 0) \<and>
   fNextExpectedFrame example_plugin = tp_frame (snapshot True 0) \<and>
   reset (pcontext (fst (run example_build keep_musical idle_engine (snapshot True 0) 10 20 512 [] 0
                           (example_plugin, example_heap, ())))) \<and>
   tp_frame (snapshot True 0) = 0 \<and>
   \<bar>uint (fNextExpectedFrame
            (fst (run example_build keep_musical idle_engine (snapshot True 0) 10 20 512 [] 0
                    (example_plugin, example_heap, ())))) - uint (tp_frame (snapshot True 0))\<bar> > 2 \<and>
   \<not> reset (pcontext (fst (run example_build keep_musical idle_engine (snapshot True 0) 10 20 512 [] 0
                     (run example_build keep_musical idle_engine (snapshot True 0) 10 20 512 [] 0
                        (example_plugin, example_heap, ())))))"
proof -
  let ?s1 = "run example_build keep_musical idle_engine (snapshot True 0) 10 20 512 [] 0
               (example_plugin, example_heap, ())"
  have tp: "tp_playing (snapshot True 0)" "tp_frame (snapshot True 0) = 0"
    by (simp_all add: snapshot_def)
  have p0: "fNextExpectedFrame example_plugin = 0" "\<not> playing (pcontext example_plugin)"
    by (simp_all add: example_plugin_def example_context_def)
  have r1: "reset (pcontext (fst ?s1))"
    by (simp add: run_reset tp p0)
  have e1: "fNextExpectedFrame (fst ?s1) = 512"
    by (simp add: run_expected tp)
  have c1: "playing (pcontext (fst ?s1))" "frame (pcontext (fst ?s1)) = 0"
    by (simp_all add: run_playing run_frame tp)
  have r2: "\<not> reset (pcontext (fst (run example_build keep_musical idle_engine (snapshot True 0)
                                     10 20 512 [] 0 ?s1)))"
    using c1 by (simp add: run_reset [of _ _ _ _ _ _ _ _ _ ?s1] tp)
  show ?thesis using tp p0 r1 e1 r2 by simp
qed

text \<open>
  Claim C4 as amended. For every snapshot with playing=true: if the frame is not 0 and
  is more than 2 away from the expected frame, the reset flag is true; if the frame is 0,
  the reset flag is true unless the context already shows playing at frame 0 (a host
  that reports no frame positions), in which case it is false; and if the expected
  frame equals the frame and the frame is not 0, the reset flag is false.
\<close>

theorem run_reset_playing:
  assumes "tp_playing tp"
  shows "(tp_frame tp \<noteq> 0 \<and> \<bar>uint (fNextExpectedFrame p) - uint (tp_frame tp)\<bar> > 2 \<longrightarrow>
            reset (pcontext (fst (run cfg bu step tp ins outs n evs en (p, h, e))))) \<and>
         (tp_frame tp = 0 \<longrightarrow>
            reset (pcontext (fst (run cfg bu step tp ins outs n evs en (p, h, e)))) =
              (\<not> (playing (pcontext p) \<and> frame (pcontext p) = 0))) \<and>
         (fNextExpectedFrame p = tp_frame tp \<and> tp_frame tp \<noteq> 0 \<longrightarrow>
            \<not> reset (pcontext (fst (run cfg bu step tp ins outs n evs en (p, h, e)))))"
  using assms by (simp add: run_reset)

theorem run_reset_playing_witness:
  "tp_playing (snapshot True 2600) \<and> tp_frame (snapshot True 2600) \<noteq> 0 \<and>
   \<bar>uint (fNextExpectedFrame (example_plugin\<lparr>fNextExpectedFrame := 1512\<rparr>))
      - uint (tp_frame (snapshot True 2600))\<bar> > 2 \<and>
   reset (pcontext (fst (run example_build keep_musical idle_engine (snapshot True 2600) 10 20 512 [] 0
                           (example_plugin\<lparr>fNextExpectedFrame := 1512\<rparr>, example_heap, ())))) \<and>
   tp_playing (snapshot True 1512) \<and> tp_frame (snapshot True 1512) \<noteq> 0 \<and>
   fNextExpectedFrame (example_plugin\<lparr>fNextExpectedFrame := 1512\<rparr>) = tp_frame (snapshot True 1512) \<and>
   \<not> reset (pcontext (fst (run example_build keep_musical idle_engine (snapshot True 1512) 10 20 512 [] 0
                           (example_plugin\<lparr>fNextExpectedFrame := 1512\<rparr>, example_heap, ())))) \<and>
   tp_playing (snapshot True 0) \<and> tp_frame (snapshot True 0) = 0 \<and>
   reset (pcontext (fst (run example_build keep_musical idle_engine (snapshot True 0) 10 20 512 [] 0
                           (example_plugin, example_heap, ()))))"
proof -
  have a: "tp_playing (snapshot True 2600)" "tp_playing (snapshot True 1512)" "tp_playing (snapshot True 0)"
    by (simp_all add: snapshot_def)
  have f: "tp_frame (snapshot True 2600) = 2600" "tp_frame (snapshot True 1512) = 1512"
    "tp_frame (snapshot True 0) = 0"
    by (simp_all add: snapshot_def)
  have c: "\<not> playing (pcontext example_plugin)"
    by (simp add: example_plugin_def example_context_def)
  from run_reset_playing [OF a(1), of "example_plugin\<lparr>fNextExpectedFrame := 1512\<rparr>"
      example_build keep_musical idle_engine 10 20 512 "[]" 0 example_heap "()"]
    run_reset_playing [OF a(2), of "example_plugin\<lparr>fNextExpectedFrame := 1512\<rparr>"
      example_build keep_musical idle_engine 10 20 512 "[]" 0 example_heap "()"]
    run_reset_playing [OF a(3), of example_plugin
      example_build keep_musical idle_engine 10 20 512 "[]" 0 example_heap "()"]
  show ?thesis using a c by (simp add: f)
qed

text \<open>
  Claim C5. The reset flag stored into the context is
  \<open>playing \<and> (frame = 0 \<or> |expected - frame| > 2)\<close>, except that it is forced to false
  when the previous and the current call both show playing, the current frame is 0 and
  the context's frame is 0. The context's playing flag and frame are the ones the
  previous call stored: each call leaves the snapshot's values there.
\<close>

theorem run_reset_flag:
  "reset (pcontext (fst (run cfg bu step tp ins outs n evs en (p, h, e)))) =
     (if playing (pcontext p) \<and> tp_playing tp \<and> tp_frame tp = 0 \<and> frame (pcontext p) = 0
      then False
      else tp_playing tp \<and>
           (tp_frame tp = 0 \<or> \<bar>uint (fNextExpectedFrame p) - uint (tp_frame tp)\<bar> > 2)) \<and>
   playing (pcontext (fst (run cfg bu step tp ins outs n evs en (p, h, e)))) = tp_playing tp \<and>
   frame (pcontext (fst (run cfg bu step tp ins outs n evs en (p, h, e)))) = tp_frame tp"
  by (simp add: run_reset run_playing run_frame)

theorem run_reset_flag_witness:
  "reset (pcontext (fst (run example_build keep_musical idle_engine (snapshot True 2600) 10 20 512 [] 0
                           (example_plugin\<lparr>fNextExpectedFrame := 1512\<rparr>, example_heap, ())))) \<and>
   \<not> reset (pcontext (fst (run example_build keep_musical idle_engine (snapshot True 0) 10 20 512 [] 0
                           (example_plugin\<lparr>pcontext := example_context\<lparr>playing := True\<rparr>,
                                           fNextExpectedFrame := 512\<rparr>, example_heap, ()))))"
  using run_reset_flag [of example_build keep_musical idle_engine "snapshot True 2600" 10 20 512 "[]" 0
      "example_plugin\<lparr>fNextExpectedFrame := 1512\<rparr>" example_heap "()"]
    run_reset_flag [of example_build keep_musical idle_engine "snapshot True 0" 10 20 512 "[]" 0
      "example_plugin\<lparr>pcontext := example_context\<lparr>playing := True\<rparr>, fNextExpectedFrame := 512\<rparr>"
      example_heap "()"]
  by (simp add: snapshot_def example_plugin_def example_context_def)

text \<open>
  Claim C7. After every call of \<^verbatim>\<open>run\<close> the stored next-expected-frame counter is the
  snapshot's frame plus the block length if the snapshot was playing, and 0 otherwise.
  The sum is the code's 64-bit unsigned one; below \<open>2^64\<close> it is the sum of the numbers.
\<close>

theorem run_next_expected_frame:
  "fNextExpectedFrame (fst (run cfg bu step tp ins outs n evs en s)) =
     (if tp_playing tp then tp_frame tp + ucast n else 0) \<and>
   (tp_playing tp \<and> unat (tp_frame tp) + unat n < 2 ^ 64 \<longrightarrow>
      unat (fNextExpectedFrame (fst (run cfg bu step tp ins outs n evs en s))) =
        unat (tp_frame tp) + unat n)"
proof (intro conjI impI)
  show "fNextExpectedFrame (fst (run cfg bu step tp ins outs n evs en s)) =
     (if tp_playing tp then tp_frame tp + ucast n else 0)"
    by (rule run_expected)
next
  assume a: "tp_playing tp \<and> unat (tp_frame tp) + unat n < 2 ^ 64"
  have "uint (ucast n :: 64 word) = uint n"
    by (rule uint_up_ucast) (simp add: is_up)
  then have u: "unat (ucast n :: 64 word) = unat n"
    by (simp only: unat_eq_nat_uint)
  have "unat (tp_frame tp + ucast n) = unat (tp_frame tp) + unat (ucast n :: 64 word)"
    using a by (intro unat_add_lem [THEN iffD1]) (simp add: u)
  then show "unat (fNextExpectedFrame (fst (run cfg bu step tp ins outs n evs en s))) =
        unat (tp_frame tp) + unat n"
    using a by (simp add: run_expected u)
qed

theorem run_next_expected_frame_witness:
  "tp_playing (snapshot True 1000) \<and> unat (tp_frame (snapshot True 1000)) + unat (512 :: 32 word) < 2 ^ 64 \<and>
   fNextExpectedFrame (fst (run example_build keep_musical idle_engine (snapshot True 1000) 10 20 512 [] 0
                              (example_plugin, example_heap, ()))) = 1512 \<and>
   fNextExpectedFrame (fst (run example_build keep_musical idle_engine (snapshot False 1000) 10 20 512 [] 0
                              (example_plugin, example_heap, ()))) = 0"
  using run_next_expected_frame [of example_build keep_musical idle_engine "snapshot True 1000" 10 20 512 "[]" 0
      "(example_plugin, example_heap, ())"]
    run_next_expected_frame [of example_build keep_musical idle_engine "snapshot False 1000" 10 20 512 "[]" 0
      "(example_plugin, example_heap, ())"]
  by (simp add: snapshot_def)

section \<open>Bypass\<close>



section \<open>Patch encode, staging directory, MIDI output\<close>

text \<open>
  Claim C8. When archiving the staging directory throws, \<^verbatim>\<open>getState\<close> with key "patch"
  returns an empty string, not partial data.
\<close>

theorem getState_archive_failure:
  assumes "fAutosavePath p \<noteq> []"
    and "prepareSave sys w = (Ok u1, w1)"
    and "saveAutosave sys w1 = (Ok u2, w2)"
    and "cleanAutosave sys w2 = (Ok u3, w3)"
    and "archiveDirectory sys (fAutosavePath p) 1 w3 = (Raise, w4)"
  shows "getState cfg sys ''patch'' p w = (Return [], w4)"
  using assms by (simp add: getState_def)

theorem getState_archive_failure_witness:
  "fAutosavePath example_plugin \<noteq> [] \<and>
   prepareSave (recording example_script) [] = (Ok (), [PrepareSave]) \<and>
   saveAutosave (recording example_script) [PrepareSave] = (Ok (), [PrepareSave, SaveAutosave]) \<and>
   cleanAutosave (recording example_script) [PrepareSave, SaveAutosave] =
     (Ok (), [PrepareSave, SaveAutosave, CleanAutosave]) \<and>
   archiveDirectory (recording example_script) (fAutosavePath example_plugin) 1
       [PrepareSave, SaveAutosave, CleanAutosave] =
     (Raise, [PrepareSave, SaveAutosave, CleanAutosave, ArchiveDirectory ''/tmp/Cardinal.0001'' 1]) \<and>
   getState example_build (recording example_script) ''patch'' example_plugin [] =
     (Return [], [PrepareSave, SaveAutosave, CleanAutosave, ArchiveDirectory ''/tmp/Cardinal.0001'' 1])"
proof -
  have a: "fAutosavePath example_plugin \<noteq> []"
    by (simp add: example_plugin_def)
  have b: "prepareSave (recording example_script) [] = (Ok (), [PrepareSave])"
    by (simp add: recording_def example_script_def)
  have c: "saveAutosave (recording example_script) [PrepareSave] = (Ok (), [PrepareSave, SaveAutosave])"
    by (simp add: recording_def example_script_def)
  have d: "cleanAutosave (recording example_script) [PrepareSave, SaveAutosave] =
     (Ok (), [PrepareSave, SaveAutosave, CleanAutosave])"
    by (simp add: recording_def example_script_def)
  have e: "archiveDirectory (recording example_script) (fAutosavePath example_plugin) 1
       [PrepareSave, SaveAutosave, CleanAutosave] =
     (Raise, [PrepareSave, SaveAutosave, CleanAutosave, ArchiveDirectory ''/tmp/Cardinal.0001'' 1])"
    by (simp add: recording_def example_script_def example_plugin_def)
  from a b c d e getState_archive_failure [OF a b c d e, of example_build]
  show ?thesis by (intro conjI)
qed

text \<open>
  Claim C9. The constructor tries the suffixes 1, 2, 3, ... in turn, tests each
  candidate path for non-existence and creates the first unused one. If there is no
  usable temporary root, or the directory cannot be created, the managed path stays
  empty; and with an empty managed path \<^verbatim>\<open>getState\<close> and \<^verbatim>\<open>setState\<close> with key "patch"
  return at once, leaving the plugin and the outside world as they were.
\<close>

theorem autosave_path_selection:
  "(getTempDirectory sys w = Ok tmp \<and> 1 \<le> k \<and> k \<le> INT_MAX \<and>
    (\<forall>j. 1 \<le> j \<and> j < k \<longrightarrow> exists_path sys (join sys tmp (uidBuf j)) w = Ok True) \<and>
    exists_path sys (join sys tmp (uidBuf k)) w = Ok False \<longrightarrow>
      map_option (\<lambda>pw. (fAutosavePath (fst pw), snd pw)) (CardinalPlugin sys c w) =
        Some (if fst (createDirectories sys (join sys tmp (uidBuf k)) w) = Ok True
              then join sys tmp (uidBuf k) else [],
              snd (createDirectories sys (join sys tmp (uidBuf k)) w))) \<and>
   (getTempDirectory sys w = Raise \<longrightarrow>
      map_option (\<lambda>pw. (fAutosavePath (fst pw), snd pw)) (CardinalPlugin sys c w) = Some ([], w)) \<and>
   (fAutosavePath p0 = [] \<longrightarrow>
      getState cfg sys ''patch'' p0 w0 = (Return [], w0) \<and>
      setState cfg sys ''patch'' v (p0, w0) = (Return (), p0, w0))"
proof (intro conjI impI)
  assume a: "getTempDirectory sys w = Ok tmp \<and> 1 \<le> k \<and> k \<le> INT_MAX \<and>
    (\<forall>j. 1 \<le> j \<and> j < k \<longrightarrow> exists_path sys (join sys tmp (uidBuf j)) w = Ok True) \<and>
    exists_path sys (join sys tmp (uidBuf k)) w = Ok False"
  then have "find_unused sys tmp w 1 = Some (create_or_empty sys (join sys tmp (uidBuf k)) w)"
    by (intro find_unused_first [where d = "nat (k - 1)"]) simp_all
  with a have "create_unique_path sys w = Some (create_or_empty sys (join sys tmp (uidBuf k)) w)"
    by (simp add: create_unique_path_def)
  then show "map_option (\<lambda>pw. (fAutosavePath (fst pw), snd pw)) (CardinalPlugin sys c w) =
        Some (if fst (createDirectories sys (join sys tmp (uidBuf k)) w) = Ok True
              then join sys tmp (uidBuf k) else [],
              snd (createDirectories sys (join sys tmp (uidBuf k)) w))"
    by (simp add: CardinalPlugin_def create_or_empty_path [symmetric]
        create_or_empty_world [symmetric] split: prod.splits)
next
  assume "getTempDirectory sys w = Raise"
  then show "map_option (\<lambda>pw. (fAutosavePath (fst pw), snd pw)) (CardinalPlugin sys c w) = Some ([], w)"
    by (simp add: CardinalPlugin_def create_unique_path_def)
next
  assume e: "fAutosavePath p0 = []"
  then show "getState cfg sys ''patch'' p0 w0 = (Return [], w0)"
    by (rule getState_empty_path)
  from e show "setState cfg sys ''patch'' v (p0, w0) = (Return (), p0, w0)"
    by (rule setState_empty_path)
qed

theorem autosave_path_selection_witness:
  "getTempDirectory (recording example_script) [] = Ok ''/tmp'' \<and>
   join (recording example_script) ''/tmp'' (uidBuf 3) = ''/tmp/Cardinal.0003'' \<and>
   exists_path (recording example_script) (join (recording example_script) ''/tmp'' (uidBuf 1)) [] = Ok True \<and>
   exists_path (recording example_script) (join (recording example_script) ''/tmp'' (uidBuf 2)) [] = Ok True \<and>
   exists_path (recording example_script) (join (recording example_script) ''/tmp'' (uidBuf 3)) [] = Ok False \<and>
   map_option (\<lambda>pw. (fAutosavePath (fst pw), snd pw))
       (CardinalPlugin (recording example_script) example_context []) =
     Some (''/tmp/Cardinal.0003'', [CreateDirectories ''/tmp/Cardinal.0003'']) \<and>
   getTempDirectory (recording (example_script\<lparr>tmp_dir := Raise\<rparr>)) [] = Raise \<and>
   map_option (\<lambda>pw. (fAutosavePath (fst pw), snd pw))
       (CardinalPlugin (recording (example_script\<lparr>tmp_dir := Raise\<rparr>)) example_context []) =
     Some ([], []) \<and>
   fAutosavePath (example_plugin\<lparr>fAutosavePath := []\<rparr>) = [] \<and>
   getState example_build (recording example_script) ''patch'' (example_plugin\<lparr>fAutosavePath := []\<rparr>) [] =
     (Return [], []) \<and>
   setState example_build (recording example_script) ''patch'' ''KLUv/QBY'' (example_plugin\<lparr>fAutosavePath := []\<rparr>, []) =
     (Return (), example_plugin\<lparr>fAutosavePath := []\<rparr>, [])"
proof -
  let ?sys = "recording example_script"
  have u: "uidBuf 1 = ''Cardinal.0001''" "uidBuf 2 = ''Cardinal.0002''" "uidBuf 3 = ''Cardinal.0003''"
    by code_simp+
  have t: "getTempDirectory ?sys [] = Ok ''/tmp''"
    by (simp add: recording_def example_script_def)
  have j: "join ?sys ''/tmp'' (uidBuf 3) = ''/tmp/Cardinal.0003''"
    by (simp add: recording_def u)
  have x1: "exists_path ?sys (join ?sys ''/tmp'' (uidBuf 1)) [] = Ok True"
    by (simp add: recording_def example_script_def u)
  have x2: "exists_path ?sys (join ?sys ''/tmp'' (uidBuf 2)) [] = Ok True"
    by (simp add: recording_def example_script_def u)
  have x3: "exists_path ?sys (join ?sys ''/tmp'' (uidBuf 3)) [] = Ok False"
    by (simp add: recording_def example_script_def u)
  have below: "\<forall>j. 1 \<le> j \<and> j < 3 \<longrightarrow> exists_path ?sys (join ?sys ''/tmp'' (uidBuf j)) [] = Ok True"
  proof (intro allI impI)
    fix j :: int
    assume "1 \<le> j \<and> j < 3"
    then have "j = 1 \<or> j = 2" by arith
    then show "exists_path ?sys (join ?sys ''/tmp'' (uidBuf j)) [] = Ok True"
      using x1 x2 by auto
  qed
  have mk: "createDirectories ?sys ''/tmp/Cardinal.0003'' [] = (Ok True, [CreateDirectories ''/tmp/Cardinal.0003''])"
    by (simp add: recording_def example_script_def)
  have r: "getTempDirectory (recording (example_script\<lparr>tmp_dir := Raise\<rparr>)) [] = Raise"
    by (simp add: recording_def)
  have e: "fAutosavePath (example_plugin\<lparr>fAutosavePath := []\<rparr>) = []"
    by simp
  note thm1 = autosave_path_selection [where sys = ?sys and w = "[]" and tmp = "''/tmp''" and k = 3
      and c = example_context and ?p0.0 = "example_plugin\<lparr>fAutosavePath := []\<rparr>" and ?w0.0 = "[]"
      and cfg = example_build and v = "''KLUv/QBY''"]
  note thm2 = autosave_path_selection [where sys = "recording (example_script\<lparr>tmp_dir := Raise\<rparr>)"
      and w = "[]" and tmp = "''/tmp''" and k = 3
      and c = example_context and ?p0.0 = "example_plugin\<lparr>fAutosavePath := []\<rparr>" and ?w0.0 = "[]"
      and cfg = example_build and v = "''KLUv/QBY''"]
  have c1: "map_option (\<lambda>pw. (fAutosavePath (fst pw), snd pw)) (CardinalPlugin ?sys example_context []) =
     Some (''/tmp/Cardinal.0003'', [CreateDirectories ''/tmp/Cardinal.0003''])"
    using thm1 t below x3 by (simp add: INT_MAX_def j mk)
  have c2: "map_option (\<lambda>pw. (fAutosavePath (fst pw), snd pw))
       (CardinalPlugin (recording (example_script\<lparr>tmp_dir := Raise\<rparr>)) example_context []) = Some ([], [])"
    using thm2 [THEN conjunct2, THEN conjunct1] r by (rule mp)
  have c3: "getState example_build ?sys ''patch'' (example_plugin\<lparr>fAutosavePath := []\<rparr>) [] = (Return [], [])"
    "setState example_build ?sys ''patch'' ''KLUv/QBY'' (example_plugin\<lparr>fAutosavePath := []\<rparr>, []) =
     (Return (), example_plugin\<lparr>fAutosavePath := []\<rparr>, [])"
    using thm1 e by simp_all
  from t j x1 x2 x3 c1 r c2 e c3 show ?thesis by (intro conjI)
qed

text \<open>
  Claim C10. While the instance is bypassed, \<^verbatim>\<open>writeMidiMessage\<close> forwards nothing to
  the host: it returns at once, whatever the message is.
\<close>

theorem writeMidiMessage_bypassed:
  "bypassed c \<Longrightarrow> writeMidiMessage writeMidiEvent uninit c message channel w = w"
  by (simp add: writeMidiMessage_def)

theorem writeMidiMessage_bypassed_witness:
  "bypassed (example_context\<lparr>bypassed := True\<rparr>) \<and>
   writeMidiMessage (\<lambda>ev out. out @ [ev]) zero_MidiEvent (example_context\<lparr>bypassed := True\<rparr>)
     \<lparr>msg_bytes = [0x90, 60, 100], msg_frame = 0\<rparr> 0 [] = []"
proof -
  have b: "bypassed (example_context\<lparr>bypassed := True\<rparr>)" by simp
  from b writeMidiMessage_bypassed [OF b] show ?thesis by simp
qed

text \<open>The same message on an instance that is not bypassed reaches the host.\<close>

lemma writeMidiMessage_forwards:
  "writeMidiMessage (\<lambda>ev out. out @ [ev]) zero_MidiEvent example_context
     \<lparr>msg_bytes = [0x90, 60, 100], msg_frame = 0\<rparr> 0 [] = [note_on]"
  by (simp add: writeMidiMessage_def example_context_def event_size_def zero_MidiEvent_def
      note_on_def Let_def)

end
